theory Spec2Isabelle
  imports Complex_Main "HOL-Library.Sublist"
begin

section \<open>Diagram boxes (visualization.py, prismadiagram.py)\<close>

text \<open>
  The drawing surface that \<open>create_box\<close> writes to. Only what the function adds is kept:
  the rectangles given to \<open>ax.add_patch\<close> (corner, width, height) and the labels given to
  \<open>ax.text\<close> (position, text, font size). Coordinates are Python floats; they are read here
  as real numbers.
\<close>

record axes =
  patches :: "((real \<times> real) \<times> real \<times> real) list"
  texts :: "((real \<times> real) \<times> string \<times> nat) list"

type_synonym point = "real \<times> real"

text \<open>
  \<open>create_box(ax, text, x, y, width=4, height=1.8, fontsize=10)\<close>: adds the rectangle and
  the centred label to the axes and returns the five anchor points in the order
  (center, top-center, bottom-center, right-center, left-center). The two copies of the
  function (visualization.py and prismadiagram.py) have the same body. The updated axes
  are returned next to the anchors, since the source mutates \<open>ax\<close>.
\<close>

definition create_box ::
  "axes \<Rightarrow> string \<Rightarrow> real \<Rightarrow> real \<Rightarrow> real \<Rightarrow> real \<Rightarrow> nat
    \<Rightarrow> axes \<times> (point \<times> point \<times> point \<times> point \<times> point)" where
  "create_box ax text x y width height fontsize =
     (let ax1 = ax\<lparr>patches := patches ax @ [((x, y), width, height)]\<rparr>;
          ax2 = ax1\<lparr>texts := texts ax1 @ [((x + width / 2, y + height / 2), text, fontsize)]\<rparr>;
          center = (x + width / 2, y + height / 2);
          top_center = (x + width / 2, y + height);
          bottom_center = (x + width / 2, y);
          right_center = (x + width, y + height / 2);
          left_center = (x, y + height / 2)
      in (ax2, (center, top_center, bottom_center, right_center, left_center)))"

text \<open>The call with the default width, height and font size of the signature.\<close>

definition create_box_default ::
  "axes \<Rightarrow> string \<Rightarrow> real \<Rightarrow> real \<Rightarrow> axes \<times> (point \<times> point \<times> point \<times> point \<times> point)" where
  "create_box_default ax text x y = create_box ax text x y 4 (18 / 10) 10"

section \<open>Errors\<close>

text \<open>
  The exceptions the modelled functions can raise. \<open>KeyError\<close> carries the message that
  \<open>validate_dataframe\<close> builds; \<open>KeyError_labels\<close> carries the list of absent labels that
  \<open>DataFrame.dropna(subset=...)\<close> raises with; \<open>AttributeError\<close> is what the \<open>.str\<close> accessor
  raises on a column that is not text; \<open>ValueError\<close> carries the text that could not be
  converted to a float.
\<close>

datatype error =
    KeyError string
  | KeyError_labels "string list"
  | AttributeError
  | ValueError string

section \<open>Binary64 floating point\<close>

text \<open>
  A Python float is an IEEE 754 binary64 value: a finite number, an infinity or NaN.
  A finite value is given by the real number it stands for (the two zeros are not told
  apart: they compare equal, and nothing modelled here divides by zero).
\<close>

datatype float64 = Finite real | PInf | NInf | NaN

text \<open>The integer nearest to a real number, the even one when two are equally near.\<close>

definition round_half_even :: "real \<Rightarrow> int" where
  "round_half_even y =
     (let f = \<lfloor>y\<rfloor>; r = y - of_int f
      in if r < 1 / 2 then f else if 1 / 2 < r then f + 1 else if even f then f else f + 1)"

text \<open>
  The binary exponent of a positive number: the \<open>e\<close> between -1022 and 1023 with
  \<open>2^e \<le> x < 2^(e+1)\<close>, found by bisection, and -1022 for the numbers below \<open>2^-1022\<close>
  (the subnormal range).
\<close>

fun find_exponent :: "nat \<Rightarrow> int \<Rightarrow> int \<Rightarrow> real \<Rightarrow> int" where
  "find_exponent 0 lo hi x = lo"
| "find_exponent (Suc k) lo hi x =
     (let mid = (lo + hi) div 2
      in if 2 powi mid \<le> x then find_exponent k mid hi x else find_exponent k lo mid x)"

definition exponent64 :: "real \<Rightarrow> int" where
  "exponent64 x = find_exponent 11 (- 1022) 1024 x"

text \<open>
  Rounding of an exact result to binary64, to nearest and ties to even: a multiple of
  the spacing \<open>2^(e-52)\<close> of the values at the number's exponent, and an infinity from
  \<open>2^1024 - 2^970\<close> on, halfway between the largest finite value and \<open>2^1024\<close>. It is also
  how a decimal literal of the source denotes a float.
\<close>

definition round64 :: "real \<Rightarrow> float64" where
  "round64 x =
     (if 2 ^ 1024 - 2 ^ 970 \<le> \<bar>x\<bar> then (if 0 < x then PInf else NInf)
      else let ulp = 2 powi (exponent64 \<bar>x\<bar> - 52)
           in Finite (of_int (round_half_even (x / ulp)) * ulp))"

text \<open>The arithmetic operations: the exact result, rounded; NaN and the infinities as in IEEE 754.\<close>

fun fneg :: "float64 \<Rightarrow> float64" where
  "fneg (Finite a) = Finite (- a)"
| "fneg PInf = NInf"
| "fneg NInf = PInf"
| "fneg NaN = NaN"

fun fadd :: "float64 \<Rightarrow> float64 \<Rightarrow> float64" where
  "fadd (Finite a) (Finite b) = round64 (a + b)"
| "fadd NaN y = NaN"
| "fadd x NaN = NaN"
| "fadd PInf NInf = NaN"
| "fadd NInf PInf = NaN"
| "fadd PInf y = PInf"
| "fadd x PInf = PInf"
| "fadd NInf y = NInf"
| "fadd x NInf = NInf"

definition fsub :: "float64 \<Rightarrow> float64 \<Rightarrow> float64" where
  "fsub x y = fadd x (fneg y)"



text \<open>The comparisons \<open><\<close> and \<open>\<le>\<close>: false whenever an operand is NaN.\<close>

fun flt :: "float64 \<Rightarrow> float64 \<Rightarrow> bool" where
  "flt (Finite a) (Finite b) = (a < b)"
| "flt NaN y = False"
| "flt x NaN = False"
| "flt x NInf = False"
| "flt PInf y = False"
| "flt NInf y = True"
| "flt x PInf = True"


section \<open>Tabular data\<close>

text \<open>
  A column as \<open>pandas.read_csv\<close> produces it: either of object dtype, holding text or a
  missing value (NaN) in each cell, or of a numeric dtype, holding a number or a missing
  value in each cell. The dtype belongs to the column, not to its cells: a column keeps
  it when all its rows are removed. The numbers are of an arbitrary type \<open>'f\<close>
  (Python floats in the program).
\<close>

datatype 'f column = ObjCol "string option list" | NumCol "'f option list"

text \<open>
  A data frame: the row labels (the index) and the named columns, in order. In a
  well-formed frame every column has one cell per row label.
\<close>

record 'f dataframe =
  df_index :: "nat list"
  df_columns :: "(string \<times> 'f column) list"

record 'f series =
  s_index :: "nat list"
  s_values :: "'f column"

fun col_length :: "'f column \<Rightarrow> nat" where
  "col_length (ObjCol xs) = length xs"
| "col_length (NumCol xs) = length xs"

definition nrows :: "'f dataframe \<Rightarrow> nat" where
  "nrows df = length (df_index df)"

definition column_names :: "'f dataframe \<Rightarrow> string list" where
  "column_names df = map fst (df_columns df)"

definition wf_dataframe :: "'f dataframe \<Rightarrow> bool" where
  "wf_dataframe df = list_all (\<lambda>nc. col_length (snd nc) = nrows df) (df_columns df)"

section \<open>Column validation (utils.py, scatterplot\_perf\_comparison.py)\<close>

text \<open>Python's \<open>sep.join(items)\<close>.\<close>

fun join :: "string \<Rightarrow> string list \<Rightarrow> string" where
  "join sep [] = []"
| "join sep [x] = x"
| "join sep (x # y # ys) = x @ sep @ join sep (y # ys)"

text \<open>
  \<open>validate_dataframe(df, required_columns)\<close>: collects the required names that are not
  among the frame's columns, in the order of \<open>required_columns\<close>, and raises
  \<open>KeyError\<close> with all of them in the message when there is one; returns \<open>None\<close>
  otherwise.
\<close>

definition missing_columns :: "'f dataframe \<Rightarrow> string list \<Rightarrow> string list" where
  "missing_columns df required_columns =
     filter (\<lambda>col. col \<notin> set (column_names df)) required_columns"

definition validate_dataframe :: "'f dataframe \<Rightarrow> string list \<Rightarrow> error + unit" where
  "validate_dataframe df required_columns =
     (if missing_columns df required_columns \<noteq> []
      then Inl (KeyError (''Missing required columns: '' @
                 join '', '' (missing_columns df required_columns)))
      else Inr ())"

section \<open>Text operations of the performance preprocessor\<close>

text \<open>
  \<open>s.replace(",", ".")\<close>, which \<open>col.str.replace(",", ".")\<close> applies to every cell: every
  comma becomes a period. Both characters are ASCII, so the replacement is the same on
  the UTF-8 bytes as on Python's code points.
\<close>

definition str_replace_comma :: "string \<Rightarrow> string" where
  "str_replace_comma s = map (\<lambda>c. if c = CHR '','' then CHR ''.'' else c) s"

text \<open>
  The conversion of one text cell of a score column: the comma replacement, then the
  float conversion of \<open>astype(float)\<close>. The float parser is the library's; it is the
  parameter \<open>to_float\<close>, which returns \<open>None\<close> where \<open>float(s)\<close> raises \<open>ValueError\<close>.
\<close>

definition convert_score_text :: "(string \<Rightarrow> 'f option) \<Rightarrow> string \<Rightarrow> error + 'f" where
  "convert_score_text to_float s =
     (case to_float (str_replace_comma s) of
        None \<Rightarrow> Inl (ValueError (str_replace_comma s))
      | Some v \<Rightarrow> Inr v)"

text \<open>
  \<open>pat in s\<close>: the pattern occurs in the text as a contiguous run of characters. This is
  what \<open>col.str.contains("AUC")\<close> tests in each text cell (the pattern has no regular
  expression metacharacter, and the match is case-sensitive).
\<close>

fun str_contains :: "string \<Rightarrow> string \<Rightarrow> bool" where
  "str_contains pat [] = (pat = [])"
| "str_contains pat (c # s) = (prefix pat (c # s) \<or> str_contains pat s)"

text \<open>
  A decimal numeral: digits, optionally followed by a period and more digits, read as
  the real number it denotes. It stands in for the float parser on such numerals where
  a concrete parser is needed; a Python float is the nearest binary fraction to this
  value.
\<close>

definition digit_val :: "char \<Rightarrow> nat option" where
  "digit_val c = map_of (zip ''0123456789'' [0, 1, 2, 3, 4, 5, 6, 7, 8, 9]) c"

definition is_digits :: "string \<Rightarrow> bool" where
  "is_digits s = (s \<noteq> [] \<and> list_all (\<lambda>c. digit_val c \<noteq> None) s)"

fun digits_val :: "nat \<Rightarrow> string \<Rightarrow> nat" where
  "digits_val acc [] = acc"
| "digits_val acc (c # s) =
     digits_val (10 * acc + (case digit_val c of Some d \<Rightarrow> d | None \<Rightarrow> 0)) s"

definition decimal_value :: "string \<Rightarrow> real option" where
  "decimal_value s =
     (let ip = takeWhile (\<lambda>c. c \<noteq> CHR ''.'') s;
          rest = dropWhile (\<lambda>c. c \<noteq> CHR ''.'') s
      in if \<not> is_digits ip then None
         else if rest = [] then Some (real (digits_val 0 ip))
         else if is_digits (tl rest)
         then Some (real (digits_val 0 ip) + real (digits_val 0 (tl rest)) / 10 ^ length (tl rest))
         else None)"

section \<open>Data frame operations used by the preprocessor\<close>

text \<open>
  The pandas operations that \<open>preprocess_performance_data\<close> calls, after their documented
  behaviour on frames whose column names are distinct (as \<open>read_csv\<close> makes them).

  Selection of the entries of a list by a boolean mask of the same length.
\<close>

definition mask_select :: "bool list \<Rightarrow> 'a list \<Rightarrow> 'a list" where
  "mask_select keep xs = map fst (filter snd (zip xs keep))"

fun col_filter :: "bool list \<Rightarrow> 'f column \<Rightarrow> 'f column" where
  "col_filter keep (ObjCol xs) = ObjCol (mask_select keep xs)"
| "col_filter keep (NumCol xs) = NumCol (mask_select keep xs)"

text \<open>\<open>df[mask]\<close>: the rows where the mask holds, with their labels; a new frame.\<close>

definition boolean_index :: "'f dataframe \<Rightarrow> bool list \<Rightarrow> 'f dataframe" where
  "boolean_index df keep =
     \<lparr>df_index = mask_select keep (df_index df),
      df_columns = map (\<lambda>nc. (fst nc, col_filter keep (snd nc))) (df_columns df)\<rparr>"

text \<open>\<open>df[name]\<close>: the column of that name; \<open>KeyError\<close> when there is none.\<close>

definition getitem :: "'f dataframe \<Rightarrow> string \<Rightarrow> error + 'f column" where
  "getitem df name =
     (case map_of (df_columns df) name of
        None \<Rightarrow> Inl (KeyError name)
      | Some col \<Rightarrow> Inr col)"

text \<open>
  \<open>df[names]\<close>: the frame of the named columns, in the order of the list; \<open>KeyError\<close>
  with the absent names when one is not a column.
\<close>

definition getitems :: "'f dataframe \<Rightarrow> string list \<Rightarrow> error + 'f dataframe" where
  "getitems df names =
     (let absent = filter (\<lambda>c. c \<notin> set (column_names df)) names
      in if absent \<noteq> [] then Inl (KeyError_labels absent)
         else Inr \<lparr>df_index = df_index df,
                   df_columns = map (\<lambda>n. (n, the (map_of (df_columns df) n))) names\<rparr>)"

text \<open>Whether the cell at a position of a column holds a value (is not NaN).\<close>

fun notna_at :: "'f column \<Rightarrow> nat \<Rightarrow> bool" where
  "notna_at (ObjCol xs) p = (p < length xs \<and> xs ! p \<noteq> None)"
| "notna_at (NumCol xs) p = (p < length xs \<and> xs ! p \<noteq> None)"

text \<open>
  \<open>df.dropna(subset=names)\<close>: \<open>KeyError\<close> with the absent names when one is not a column;
  otherwise a new frame with the rows that have a value in every named column.
\<close>

definition notna_all :: "'f dataframe \<Rightarrow> string list \<Rightarrow> bool list" where
  "notna_all df names =
     map (\<lambda>p. list_all (\<lambda>c. case map_of (df_columns df) c of
                               None \<Rightarrow> False
                             | Some col \<Rightarrow> notna_at col p) names)
         [0..<nrows df]"

definition dropna :: "'f dataframe \<Rightarrow> string list \<Rightarrow> error + 'f dataframe" where
  "dropna df names =
     (let absent = filter (\<lambda>c. c \<notin> set (column_names df)) names
      in if absent \<noteq> [] then Inl (KeyError_labels absent)
         else Inr (boolean_index df (notna_all df names)))"

text \<open>
  \<open>col.str.contains(pat, na=False)\<close>: the \<open>.str\<close> accessor exists on text columns only and
  raises \<open>AttributeError\<close> on a column of numeric dtype (also on an empty one, and on one
  that holds nothing but NaN); on a text column the result is, cell by cell, whether the
  text contains the pattern, and \<open>False\<close> for a missing cell.
\<close>

definition str_contains_col :: "string \<Rightarrow> 'f column \<Rightarrow> error + bool list" where
  "str_contains_col pat col =
     (case col of
        NumCol xs \<Rightarrow> Inl AttributeError
      | ObjCol xs \<Rightarrow>
          Inr (map (\<lambda>x. case x of None \<Rightarrow> False | Some s \<Rightarrow> str_contains pat s) xs))"

text \<open>
  \<open>col.astype(str)\<close>: a text cell is itself, a number is formatted by the library
  (the parameter \<open>to_str\<close>), NaN becomes the text \<open>nan\<close>.
\<close>

fun astype_str :: "('f \<Rightarrow> string) \<Rightarrow> 'f column \<Rightarrow> string list" where
  "astype_str to_str (ObjCol xs) = map (\<lambda>x. case x of None \<Rightarrow> ''nan'' | Some s \<Rightarrow> s) xs"
| "astype_str to_str (NumCol xs) = map (\<lambda>x. case x of None \<Rightarrow> ''nan'' | Some v \<Rightarrow> to_str v) xs"

text \<open>
  \<open>astype(float)\<close> on text: every cell is parsed by the library's float parser (the
  parameter \<open>to_float\<close>); the first text it rejects raises \<open>ValueError\<close>.
\<close>

fun astype_float :: "(string \<Rightarrow> 'f option) \<Rightarrow> string list \<Rightarrow> error + 'f list" where
  "astype_float to_float [] = Inr []"
| "astype_float to_float (s # ss) =
     (case to_float s of
        None \<Rightarrow> Inl (ValueError s)
      | Some v \<Rightarrow>
          (case astype_float to_float ss of
             Inl e \<Rightarrow> Inl e
           | Inr vs \<Rightarrow> Inr (v # vs)))"

fun astype_float_frame ::
  "(string \<Rightarrow> 'f option) \<Rightarrow> string list list \<Rightarrow> error + 'f list list" where
  "astype_float_frame to_float [] = Inr []"
| "astype_float_frame to_float (c # cs) =
     (case astype_float to_float c of
        Inl e \<Rightarrow> Inl e
      | Inr vs \<Rightarrow>
          (case astype_float_frame to_float cs of
             Inl e \<Rightarrow> Inl e
           | Inr vss \<Rightarrow> Inr (vs # vss)))"

text \<open>
  \<open>df[names] = value\<close>, where the value is a frame whose columns are \<open>names\<close>: pandas
  assigns name by name, \<open>df[name] = value[name]\<close>, in place. A name that is not yet a
  column is appended. For a name that occurs more than once in \<open>names\<close>, \<open>value[name]\<close> is
  a frame of several columns, and assigning it to the one column raises \<open>ValueError\<close>;
  the names before it have been assigned by then. The result is the error, if any, and
  the columns as they are after the statement.
\<close>

fun set_column ::
  "string \<Rightarrow> 'f column \<Rightarrow> (string \<times> 'f column) list \<Rightarrow> (string \<times> 'f column) list" where
  "set_column name col [] = [(name, col)]"
| "set_column name col (nc # rest) =
     (if fst nc = name then (name, col) # rest else nc # set_column name col rest)"

fun assign_columns ::
  "string list \<Rightarrow> (string \<times> 'f column) list \<Rightarrow> (string \<times> 'f column) list
    \<Rightarrow> error option \<times> (string \<times> 'f column) list" where
  "assign_columns names [] cols = (None, cols)"
| "assign_columns names (nc # rest) cols =
     (if fst nc \<in> set (remove1 (fst nc) names)
      then (Some (ValueError ''Columns must be same length as key''), cols)
      else assign_columns names rest (set_column (fst nc) (snd nc) cols))"

definition setitems ::
  "'f dataframe \<Rightarrow> string list \<Rightarrow> 'f column list \<Rightarrow> error option \<times> 'f dataframe" where
  "setitems df names cols =
     (case assign_columns names (zip names cols) (df_columns df) of
        (err, cs) \<Rightarrow> (err, df\<lparr>df_columns := cs\<rparr>))"

section \<open>The performance preprocessor (preprocessing.py, scatterplot\_perf\_comparison.py)\<close>

text \<open>
  The three steps of \<open>preprocess_performance_data\<close> (its copy \<open>preprocess_data\<close> in
  scatterplot\_perf\_comparison.py has the same body).

  Steps 1 and 2: drop the rows with a missing value in a designated column, then keep
  the rows whose evaluation metric contains \<open>AUC\<close>.
\<close>

definition filter_auc :: "'f dataframe \<Rightarrow> string \<Rightarrow> error + 'f dataframe" where
  "filter_auc df evaluation_column =
     (case getitem df evaluation_column of
        Inl e \<Rightarrow> Inl e
      | Inr col \<Rightarrow>
          (case str_contains_col ''AUC'' col of
             Inl e \<Rightarrow> Inl e
           | Inr keep \<Rightarrow> Inr (boolean_index df keep)))"

definition drop_and_filter ::
  "'f dataframe \<Rightarrow> string list \<Rightarrow> string \<Rightarrow> string \<Rightarrow> error + 'f dataframe" where
  "drop_and_filter df score_columns evaluation_column modality_column =
     (case dropna df (score_columns @ [evaluation_column, modality_column]) of
        Inl e \<Rightarrow> Inl e
      | Inr df1 \<Rightarrow> filter_auc df1 evaluation_column)"

text \<open>
  Step 3: the score columns as text with commas replaced by periods, converted to
  floats (the right-hand side of the assignment), and assigned back to the frame's
  score columns.
\<close>

definition converted_scores ::
  "('f \<Rightarrow> string) \<Rightarrow> (string \<Rightarrow> 'f option) \<Rightarrow> 'f dataframe \<Rightarrow> string list
    \<Rightarrow> error + 'f column list" where
  "converted_scores to_str to_float df score_columns =
     (case getitems df score_columns of
        Inl e \<Rightarrow> Inl e
      | Inr sub \<Rightarrow>
          (case astype_float_frame to_float
                  (map (\<lambda>nc. map str_replace_comma (astype_str to_str (snd nc)))
                       (df_columns sub)) of
             Inl e \<Rightarrow> Inl e
           | Inr vss \<Rightarrow> Inr (map (\<lambda>vs. NumCol (map Some vs)) vss)))"

definition convert_scores ::
  "('f \<Rightarrow> string) \<Rightarrow> (string \<Rightarrow> 'f option) \<Rightarrow> 'f dataframe \<Rightarrow> string list
    \<Rightarrow> error + 'f dataframe" where
  "convert_scores to_str to_float df score_columns =
     (case converted_scores to_str to_float df score_columns of
        Inl e \<Rightarrow> Inl e
      | Inr cols \<Rightarrow>
          (case setitems df score_columns cols of
             (Some e, d) \<Rightarrow> Inl e
           | (None, d) \<Rightarrow> Inr d))"

text \<open>The value returned: \<open>(df[score_columns], df[modality_column])\<close>.\<close>

definition select_result ::
  "'f dataframe \<Rightarrow> string list \<Rightarrow> string \<Rightarrow> error + ('f dataframe \<times> 'f series)" where
  "select_result df score_columns modality_column =
     (case getitems df score_columns of
        Inl e \<Rightarrow> Inl e
      | Inr scores \<Rightarrow>
          (case getitem df modality_column of
             Inl e \<Rightarrow> Inl e
           | Inr mcol \<Rightarrow> Inr (scores, \<lparr>s_index = df_index df, s_values = mcol\<rparr>)))"

definition preprocess_performance_data ::
  "('f \<Rightarrow> string) \<Rightarrow> (string \<Rightarrow> 'f option) \<Rightarrow> 'f dataframe \<Rightarrow> string list \<Rightarrow> string \<Rightarrow> string
    \<Rightarrow> error + ('f dataframe \<times> 'f series)" where
  "preprocess_performance_data to_str to_float df score_columns evaluation_column modality_column =
     (case drop_and_filter df score_columns evaluation_column modality_column of
        Inl e \<Rightarrow> Inl e
      | Inr df2 \<Rightarrow>
          (case convert_scores to_str to_float df2 score_columns of
             Inl e \<Rightarrow> Inl e
           | Inr df3 \<Rightarrow> select_result df3 score_columns modality_column))"

text \<open>
  The same function with the frames as objects in a store, to follow which object each
  statement writes. A store is the list of the frames allocated so far and a reference is
  a position in it. \<open>dropna\<close> and \<open>df[mask]\<close> each return a new frame, to which the local
  variable \<open>df\<close> is rebound; the assignment \<open>df[score_columns] = ...\<close> writes to the frame
  that \<open>df\<close> refers to at that point, also when it raises part of the way.
\<close>

type_synonym 'f store = "'f dataframe list"

definition alloc :: "'f store \<Rightarrow> 'f dataframe \<Rightarrow> 'f store \<times> nat" where
  "alloc st d = (st @ [d], length st)"

definition preprocess_performance_data_store ::
  "('f \<Rightarrow> string) \<Rightarrow> (string \<Rightarrow> 'f option) \<Rightarrow> 'f store \<Rightarrow> nat \<Rightarrow> string list \<Rightarrow> string \<Rightarrow> string
    \<Rightarrow> (error + ('f dataframe \<times> 'f series)) \<times> 'f store" where
  "preprocess_performance_data_store to_str to_float st df score_columns evaluation_column
       modality_column =
     (case dropna (st ! df) (score_columns @ [evaluation_column, modality_column]) of
        Inl e \<Rightarrow> (Inl e, st)
      | Inr d1 \<Rightarrow>
          (let (st1, df1) = alloc st d1
           in case filter_auc (st1 ! df1) evaluation_column of
                Inl e \<Rightarrow> (Inl e, st1)
              | Inr d2 \<Rightarrow>
                  (let (st2, df2) = alloc st1 d2
                   in case converted_scores to_str to_float (st2 ! df2) score_columns of
                        Inl e \<Rightarrow> (Inl e, st2)
                      | Inr cols \<Rightarrow>
                          (let (err, d3) = setitems (st2 ! df2) score_columns cols;
                               st3 = st2[df2 := d3]
                           in case err of
                                Some e \<Rightarrow> (Inl e, st3)
                              | None \<Rightarrow>
                                  (select_result (st3 ! df2) score_columns modality_column,
                                   st3)))))"

section \<open>The preprocessor's filter in the words of the specification\<close>

text \<open>
  A row (given by its position) qualifies when it has a value in every designated
  column and its evaluation metric is a text that contains \<open>AUC\<close>. A cell of an absent
  column has no value, and a cell of a numeric column is not a text.
\<close>

definition cell_notna :: "'f dataframe \<Rightarrow> string \<Rightarrow> nat \<Rightarrow> bool" where
  "cell_notna df c p =
     (case map_of (df_columns df) c of None \<Rightarrow> False | Some col \<Rightarrow> notna_at col p)"

definition cell_text :: "'f dataframe \<Rightarrow> string \<Rightarrow> nat \<Rightarrow> string option" where
  "cell_text df c p =
     (case map_of (df_columns df) c of
        Some (ObjCol xs) \<Rightarrow> (if p < length xs then xs ! p else None)
      | _ \<Rightarrow> None)"

definition row_qualifies ::
  "'f dataframe \<Rightarrow> string list \<Rightarrow> string \<Rightarrow> string \<Rightarrow> nat \<Rightarrow> bool" where
  "row_qualifies df score_columns evaluation_column modality_column p =
     (list_all (\<lambda>c. cell_notna df c p) (score_columns @ [evaluation_column, modality_column])
      \<and> (case cell_text df evaluation_column p of
            None \<Rightarrow> False
          | Some s \<Rightarrow> str_contains ''AUC'' s))"

definition surviving_positions ::
  "'f dataframe \<Rightarrow> string list \<Rightarrow> string \<Rightarrow> string \<Rightarrow> nat list" where
  "surviving_positions df score_columns evaluation_column modality_column =
     filter (row_qualifies df score_columns evaluation_column modality_column) [0..<nrows df]"

text \<open>The rows of a frame at given positions, in the given order.\<close>

fun col_take :: "nat list \<Rightarrow> 'f column \<Rightarrow> 'f column" where
  "col_take ps (ObjCol xs) = ObjCol (map ((!) xs) ps)"
| "col_take ps (NumCol xs) = NumCol (map ((!) xs) ps)"

definition take_rows :: "nat list \<Rightarrow> 'f dataframe \<Rightarrow> 'f dataframe" where
  "take_rows ps df =
     \<lparr>df_index = map ((!) (df_index df)) ps,
      df_columns = map (\<lambda>nc. (fst nc, col_take ps (snd nc))) (df_columns df)\<rparr>"

section \<open>Descriptive statistics (boxplot.py, visualization.py)\<close>












section \<open>Statistics of the scatter plot (visualization.py, scatterplot\_perf\_comparison.py)\<close>




text \<open>
  The three counts the function prints. Each count compares a float difference with a
  float literal of the source (0.01, 0.10), and a difference can lie on the other side
  of the literal than the exact difference of the decimals does, so the counts are
  modelled in float arithmetic: on the scores as floats, with the float subtraction and
  the float comparison.
\<close>

record printed_statistics =
  total_studies :: nat
  negative_delta_count :: nat
  large_improvement_count :: nat

definition print_statistics :: "float64 list \<Rightarrow> float64 list \<Rightarrow> printed_statistics" where
  "print_statistics unimodality_scores multimodality_scores =
     (let ds = map2 fsub multimodality_scores unimodality_scores
      in \<lparr>total_studies = length unimodality_scores,
          negative_delta_count = length (filter (\<lambda>d. flt d (round64 (1 / 100))) ds),
          large_improvement_count = length (filter (\<lambda>d. flt (round64 (10 / 100)) d) ds)\<rparr>)"


section \<open>Example data\<close>

text \<open>A one-row frame with two required columns and an extra one.\<close>

definition example_frame :: "real dataframe" where
  "example_frame =
     \<lparr>df_index = [0],
      df_columns = [(''a'', NumCol [Some 1]), (''b'', ObjCol [None]),
                    (''extra'', ObjCol [Some ''t''])]\<rparr>"

text \<open>
  Three studies with the evaluation metrics AUC-ROC, Accuracy and AUC, all other
  designated columns populated; the scores are text, some with a decimal comma.
\<close>

definition metrics_frame :: "real dataframe" where
  "metrics_frame =
     \<lparr>df_index = [0, 1, 2],
      df_columns =
        [(''study'', ObjCol [Some ''s1'', Some ''s2'', None]),
         (''unimodal_best_score'', ObjCol [Some ''0,80'', Some ''0.70'', Some ''0.75'']),
         (''multimodal_best_score'', ObjCol [Some ''0.87'', Some ''0.72'', Some ''0,90'']),
         (''evaluation_metric'', ObjCol [Some ''AUC-ROC'', Some ''Accuracy'', Some ''AUC'']),
         (''modalities'', ObjCol [Some ''MRI+PET'', Some ''CT'', Some ''MRI+PET''])]\<rparr>"

text \<open>
  One study whose evaluation metric is blank: \<open>read_csv\<close> gives a column without any
  text a numeric dtype, with NaN for the blank cell.
\<close>

definition blank_metric_frame :: "real dataframe" where
  "blank_metric_frame =
     \<lparr>df_index = [0],
      df_columns =
        [(''unimodal_best_score'', ObjCol [Some ''0,80'']),
         (''multimodal_best_score'', ObjCol [Some ''0.87'']),
         (''evaluation_metric'', NumCol [None]),
         (''modalities'', ObjCol [Some ''MRI+PET''])]\<rparr>"

text \<open>One study evaluated by accuracy only.\<close>

definition accuracy_frame :: "real dataframe" where
  "accuracy_frame =
     \<lparr>df_index = [0],
      df_columns =
        [(''unimodal_best_score'', ObjCol [Some ''0,80'']),
         (''multimodal_best_score'', ObjCol [Some ''0.87'']),
         (''evaluation_metric'', ObjCol [Some ''Accuracy'']),
         (''modalities'', ObjCol [Some ''MRI+PET''])]\<rparr>"

text \<open>
  The example frames hold their scores as text, so no number is ever formatted; this
  formatter stands for the library's in the examples.
\<close>

definition plain_str :: "real \<Rightarrow> string" where
  "plain_str v = ''nan''"

text \<open>
  Five studies whose differences are the floats written 0.05, 0.02, 0.15, -0.01 and
  0.12: the unimodal scores are zero, and subtracting zero changes no float.
\<close>

definition zero_scores :: "float64 list" where
  "zero_scores = [Finite 0, Finite 0, Finite 0, Finite 0, Finite 0]"

definition example_differences :: "float64 list" where
  "example_differences =
     [round64 (5 / 100), round64 (2 / 100), round64 (15 / 100), round64 (- (1 / 100)),
      round64 (12 / 100)]"

section \<open>Theorems\<close>

subsection \<open>Diagram boxes\<close>

text \<open>
  C8. Box anchor-point geometry: a box created at (x, y) with width w and height h
  returns exactly the five anchor points center = (x + w/2, y + h/2),
  top = (x + w/2, y + h), bottom = (x + w/2, y), right = (x + w, y + h/2),
  left = (x, y + h/2), whatever the axes, the text and the font size are: the geometry
  depends on nothing but x, y, w and h.
\<close>

theorem create_box_anchors:
  "snd (create_box ax text x y w h fontsize) =
     ((x + w / 2, y + h / 2), (x + w / 2, y + h), (x + w / 2, y),
      (x + w, y + h / 2), (x, y + h / 2))"
  by (simp add: create_box_def Let_def)

subsection \<open>Comma normalization\<close>






subsection \<open>Column validation\<close>

lemma sublist_join: "c \<in> set xs \<Longrightarrow> sublist c (join sep xs)"
proof (induction sep xs rule: join.induct)
  case (3 sep x y ys)
  then show ?case
    by (auto simp: sublist_append)
qed auto

text \<open>
  C7. Column validation: the validation returns normally exactly when every required
  column is among the frame's columns (extra columns do not matter); otherwise it
  raises the missing-columns error, whose message lists the absent required columns, in
  the order required, separated by a comma and a space, so that every absent column is
  named in it.
\<close>

theorem validate_dataframe_missing:
  "(validate_dataframe df required = Inr () \<longleftrightarrow> set required \<subseteq> set (column_names df))
   \<and> (validate_dataframe df required \<noteq> Inr () \<longrightarrow>
        (\<exists>msg. validate_dataframe df required = Inl (KeyError msg)
           \<and> msg = ''Missing required columns: '' @
                   join '', '' (filter (\<lambda>c. c \<notin> set (column_names df)) required)
           \<and> (\<forall>c \<in> set required. c \<notin> set (column_names df) \<longrightarrow> sublist c msg)))"
proof -
  have "sublist c (''Missing required columns: '' @ join '', '' (missing_columns df required))"
    if "c \<in> set required" "c \<notin> set (column_names df)" for c
  proof -
    have "c \<in> set (missing_columns df required)"
      using that by (simp add: missing_columns_def)
    then have "sublist c (join '', '' (missing_columns df required))"
      by (rule sublist_join)
    then show ?thesis
      by (metis sublist_append)
  qed
  moreover have "missing_columns df required = [] \<longleftrightarrow> set required \<subseteq> set (column_names df)"
    by (auto simp: missing_columns_def filter_empty_conv)
  ultimately show ?thesis
    by (auto simp: validate_dataframe_def missing_columns_def)
qed

theorem validate_dataframe_missing_witness:
  "validate_dataframe example_frame [''a'', ''b''] = Inr ()
   \<and> validate_dataframe example_frame [''x'', ''a'', ''y'']
       = Inl (KeyError ''Missing required columns: x, y'')
   \<and> sublist ''y'' ''Missing required columns: x, y''"
  using validate_dataframe_missing [of example_frame "[''a'', ''b'']"]
        validate_dataframe_missing [of example_frame "[''x'', ''a'', ''y'']"]
  by (simp add: example_frame_def column_names_def)

subsection \<open>Five-number summary in exact arithmetic\<close>















subsection \<open>Exact float operations\<close>













subsection \<open>Five-number summary\<close>




subsection \<open>Scatter plot statistics\<close>









subsection \<open>Threshold counts\<close>

lemma example_floats:
  "round64 (1 / 100) = Finite (5764607523034235 / 2 ^ 59)"
  "round64 (10 / 100) = Finite (3602879701896397 / 2 ^ 55)"
  "round64 (5 / 100) = Finite (3602879701896397 / 2 ^ 56)"
  "round64 (2 / 100) = Finite (5764607523034235 / 2 ^ 58)"
  "round64 (15 / 100) = Finite (5404319552844595 / 2 ^ 55)"
  "round64 (- (1 / 100)) = Finite (- (5764607523034235 / 2 ^ 59))"
  "round64 (12 / 100) = Finite (1080863910568919 / 2 ^ 53)"
  by (simp_all add: round64_def exponent64_def eval_nat_numeral round_half_even_def Let_def)

lemma fsub_zero_example:
  "map2 fsub example_differences zero_scores = example_differences"
proof -
  have r: "fsub (Finite y) (Finite 0) = Finite y" if "round64 y = Finite y" for y
    using that by (simp add: fsub_def)
  have "fsub (Finite (3602879701896397 / 2 ^ 56)) (Finite 0) = Finite (3602879701896397 / 2 ^ 56)"
    "fsub (Finite (5764607523034235 / 2 ^ 58)) (Finite 0) = Finite (5764607523034235 / 2 ^ 58)"
    "fsub (Finite (5404319552844595 / 2 ^ 55)) (Finite 0) = Finite (5404319552844595 / 2 ^ 55)"
    "fsub (Finite (- (5764607523034235 / 2 ^ 59))) (Finite 0)
       = Finite (- (5764607523034235 / 2 ^ 59))"
    "fsub (Finite (1080863910568919 / 2 ^ 53)) (Finite 0) = Finite (1080863910568919 / 2 ^ 53)"
    by (rule r, simp add: round64_def exponent64_def eval_nat_numeral round_half_even_def Let_def)+
  then show ?thesis
    unfolding example_differences_def zero_scores_def example_floats by simp
qed

lemma example_counts:
  "negative_delta_count (print_statistics zero_scores example_differences) = 1"
  "large_improvement_count (print_statistics zero_scores example_differences) = 2"
  unfolding print_statistics_def Let_def fsub_zero_example
  unfolding example_differences_def example_floats
  by simp_all

text \<open>
  The counts follow the float difference, not the exact one: 0.8 - 0.7 is a float
  above the float 0.10, and 0.57 - 0.56 is one below the float 0.01.
\<close>

lemma counts_follow_rounding:
  "large_improvement_count (print_statistics [round64 (7 / 10)] [round64 (8 / 10)]) = 1"
  "negative_delta_count (print_statistics [round64 (56 / 100)] [round64 (57 / 100)]) = 1"
  by (simp_all add: print_statistics_def Let_def fsub_def round64_def exponent64_def
      eval_nat_numeral round_half_even_def)

text \<open>
  The counts of the example of C5 as the code computes them: of the differences
  0.05, 0.02, 0.15, -0.01, 0.12 only -0.01 is below 0.01, so the first count is not 2.
\<close>

theorem threshold_counts_counterexample:
  "negative_delta_count (print_statistics zero_scores example_differences) \<noteq> 2"
  by (simp add: example_counts)

text \<open>
  C5 (amended). Threshold counts: the renderer reports the number of rows whose float
  difference (multimodal - unimodal) is below the float 0.01, the number of rows whose
  float difference is above the float 0.10, and the number of rows; for the differences
  0.05, 0.02, 0.15, -0.01, 0.12 the first count is 1 and the second is 2.
\<close>

theorem threshold_counts:
  assumes "length a = length b"
  shows "negative_delta_count (print_statistics a b)
           = card {i. i < length a \<and> flt (fsub (b ! i) (a ! i)) (round64 (1 / 100))}
       \<and> large_improvement_count (print_statistics a b)
           = card {i. i < length a \<and> flt (round64 (10 / 100)) (fsub (b ! i) (a ! i))}
       \<and> total_studies (print_statistics a b) = length a
       \<and> negative_delta_count (print_statistics zero_scores example_differences) = 1
       \<and> large_improvement_count (print_statistics zero_scores example_differences) = 2"
proof -
  let ?ds = "map2 fsub b a"
  have len: "length ?ds = length a" using assms by simp
  have nth: "?ds ! i = fsub (b ! i) (a ! i)" if "i < length a" for i
    using that assms by simp
  have "length (filter P ?ds) = card {i. i < length a \<and> P (fsub (b ! i) (a ! i))}" for P
  proof -
    have "length (filter P ?ds) = card {i. i < length ?ds \<and> P (?ds ! i)}"
      by (rule length_filter_conv_card)
    also have "{i. i < length ?ds \<and> P (?ds ! i)} = {i. i < length a \<and> P (fsub (b ! i) (a ! i))}"
      using nth len by auto
    finally show ?thesis .
  qed
  then have "negative_delta_count (print_statistics a b)
           = card {i. i < length a \<and> flt (fsub (b ! i) (a ! i)) (round64 (1 / 100))}"
    and "large_improvement_count (print_statistics a b)
           = card {i. i < length a \<and> flt (round64 (10 / 100)) (fsub (b ! i) (a ! i))}"
    and "total_studies (print_statistics a b) = length a"
    unfolding print_statistics_def Let_def by simp_all
  with example_counts show ?thesis
    by blast
qed

theorem threshold_counts_witness:
  "length zero_scores = length example_differences
   \<and> card {i. i < length zero_scores
              \<and> flt (fsub (example_differences ! i) (zero_scores ! i)) (round64 (1 / 100))} = 1
   \<and> card {i. i < length zero_scores
              \<and> flt (round64 (10 / 100)) (fsub (example_differences ! i) (zero_scores ! i))} = 2"
proof -
  have l: "length zero_scores = length example_differences"
    by (simp add: zero_scores_def example_differences_def)
  from threshold_counts [OF l] l show ?thesis
    by metis
qed

subsection \<open>The performance preprocessor\<close>

subsection \<open>Row selection\<close>

lemma mask_select_map: "mask_select keep (map g xs) = map g (mask_select keep xs)"
  unfolding mask_select_def
proof (induction xs arbitrary: keep)
  case Nil
  then show ?case by simp
next
  case (Cons x xs)
  then show ?case by (cases keep) auto
qed

lemma mask_select_filter: "mask_select (map Q xs) xs = filter Q xs"
  by (induction xs) (auto simp: mask_select_def)

lemma col_filter_take: "col_filter (map Q ps) (col_take ps col) = col_take (filter Q ps) col"
  by (cases col) (simp_all add: mask_select_map mask_select_filter)

lemma boolean_index_take_rows:
  "boolean_index (take_rows ps df) (map Q ps) = take_rows (filter Q ps) df"
  by (simp add: boolean_index_def take_rows_def mask_select_map mask_select_filter
      col_filter_take comp_def)

lemma col_take_all: "col_length col = n \<Longrightarrow> col_take [0..<n] col = col"
  by (cases col) (auto simp: map_nth)

lemma take_rows_all:
  assumes "wf_dataframe df"
  shows "take_rows [0..<nrows df] df = df"
proof -
  have "map (\<lambda>nc. (fst nc, col_take [0..<nrows df] (snd nc))) (df_columns df) = df_columns df"
    using assms unfolding wf_dataframe_def list_all_iff
    by (intro map_idI) (simp add: col_take_all)
  moreover have "map ((!) (df_index df)) [0..<nrows df] = df_index df"
    by (simp add: nrows_def map_nth)
  ultimately show ?thesis
    by (simp add: take_rows_def)
qed

lemma map_of_take_rows:
  "map_of (df_columns (take_rows ps df)) c = map_option (col_take ps) (map_of (df_columns df) c)"
proof -
  have "map_of (map (\<lambda>nc. (fst nc, col_take ps (snd nc))) cols) c
        = map_option (col_take ps) (map_of cols c)" for cols :: "(string \<times> 'a column) list"
    by (induction cols) auto
  then show ?thesis by (simp add: take_rows_def)
qed

lemma column_names_take_rows: "column_names (take_rows ps df) = column_names df"
  by (simp add: column_names_def take_rows_def comp_def)

lemma df_index_take_rows: "df_index (take_rows ps df) = map ((!) (df_index df)) ps"
  by (simp add: take_rows_def)

lemma map_of_column_names: "map_of (df_columns df) c = None \<longleftrightarrow> c \<notin> set (column_names df)"
  by (simp add: column_names_def map_of_eq_None_iff)

subsection \<open>Steps 1 and 2\<close>

lemma dropna_take_rows:
  assumes "wf_dataframe df" and "set names \<subseteq> set (column_names df)"
  shows "dropna df names
         = Inr (take_rows (filter (\<lambda>p. list_all (\<lambda>c. cell_notna df c p) names) [0..<nrows df]) df)"
proof -
  let ?Q = "\<lambda>p. list_all (\<lambda>c. cell_notna df c p) names"
  have absent: "filter (\<lambda>c. c \<notin> set (column_names df)) names = []"
    using assms(2) by (auto simp: filter_empty_conv)
  have "notna_all df names = map ?Q [0..<nrows df]"
    by (simp add: notna_all_def cell_notna_def)
  then have "boolean_index df (notna_all df names)
             = boolean_index (take_rows [0..<nrows df] df) (map ?Q [0..<nrows df])"
    using assms(1) by (simp add: take_rows_all)
  also have "\<dots> = take_rows (filter ?Q [0..<nrows df]) df"
    by (rule boolean_index_take_rows)
  finally show ?thesis
    by (simp add: dropna_def absent)
qed

lemma dropna_absent:
  assumes "\<not> set names \<subseteq> set (column_names df)"
  shows "dropna df names = Inl (KeyError_labels (filter (\<lambda>c. c \<notin> set (column_names df)) names))"
proof -
  have "filter (\<lambda>c. c \<notin> set (column_names df)) names \<noteq> []"
    using assms by (auto simp: filter_empty_conv)
  then show ?thesis by (simp add: dropna_def)
qed

lemma filter_auc_text:
  fixes df :: "'f dataframe"
  assumes "map_of (df_columns df) e = Some (ObjCol xs)"
  shows "filter_auc (take_rows ps df) e
         = Inr (take_rows (filter (\<lambda>p. case xs ! p of None \<Rightarrow> False
                                              | Some s \<Rightarrow> str_contains ''AUC'' s) ps) df)"
proof -
  let ?Q = "\<lambda>p. case xs ! p of None \<Rightarrow> False | Some s \<Rightarrow> str_contains ''AUC'' s"
  have "getitem (take_rows ps df) e = Inr (ObjCol (map ((!) xs) ps))"
    by (simp add: getitem_def map_of_take_rows assms)
  moreover have "str_contains_col ''AUC'' (ObjCol (map ((!) xs) ps) :: 'f column) = Inr (map ?Q ps)"
    by (simp add: str_contains_col_def comp_def)
  ultimately show ?thesis
    by (simp add: filter_auc_def boolean_index_take_rows)
qed

lemma filter_auc_numeric:
  assumes "map_of (df_columns df) e = Some (NumCol xs)"
  shows "filter_auc (take_rows ps df) e = Inl AttributeError"
  by (simp add: filter_auc_def getitem_def map_of_take_rows assms str_contains_col_def)

lemma row_qualifies_text:
  assumes "wf_dataframe df" and "map_of (df_columns df) e = Some (ObjCol xs)" and "p < nrows df"
  shows "row_qualifies df scols e m p \<longleftrightarrow>
           list_all (\<lambda>c. cell_notna df c p) (scols @ [e, m])
           \<and> (case xs ! p of None \<Rightarrow> False | Some s \<Rightarrow> str_contains ''AUC'' s)"
proof -
  have "(e, ObjCol xs) \<in> set (df_columns df)"
    using assms(2) by (rule map_of_SomeD)
  then have "length xs = nrows df"
    using assms(1) by (auto simp: wf_dataframe_def list_all_iff)
  then show ?thesis
    using assms(3) by (simp add: row_qualifies_def cell_text_def assms(2))
qed

lemma no_row_qualifies_numeric:
  assumes "map_of (df_columns df) e = Some (NumCol xs)"
  shows "\<not> row_qualifies df scols e m p"
  by (simp add: row_qualifies_def cell_text_def assms)

lemma no_row_qualifies_absent:
  assumes "\<not> set (scols @ [e, m]) \<subseteq> set (column_names df)"
  shows "\<not> row_qualifies df scols e m p"
proof -
  obtain c where c: "c \<in> set (scols @ [e, m])" "c \<notin> set (column_names df)"
    using assms by blast
  then have "\<not> cell_notna df c p"
    by (simp add: cell_notna_def map_of_column_names [symmetric])
  with c(1) show ?thesis
    unfolding row_qualifies_def list_all_iff by blast
qed

text \<open>What steps 1 and 2 return, case by case.\<close>

lemma drop_and_filter_cases:
  assumes "wf_dataframe df"
  shows "drop_and_filter df scols e m =
     (if \<not> set (scols @ [e, m]) \<subseteq> set (column_names df)
      then Inl (KeyError_labels (filter (\<lambda>c. c \<notin> set (column_names df)) (scols @ [e, m])))
      else case map_of (df_columns df) e of
             Some (NumCol xs) \<Rightarrow> Inl AttributeError
           | _ \<Rightarrow> Inr (take_rows (surviving_positions df scols e m) df))"
proof (cases "set (scols @ [e, m]) \<subseteq> set (column_names df)")
  case False
  then show ?thesis
    by (simp only: drop_and_filter_def dropna_absent [OF False] if_True sum.case simp_thms)
next
  case True
  let ?ps = "filter (\<lambda>p. list_all (\<lambda>c. cell_notna df c p) (scols @ [e, m])) [0..<nrows df]"
  have d: "dropna df (scols @ [e, m]) = Inr (take_rows ?ps df)"
    using assms True by (rule dropna_take_rows)
  have "e \<in> set (column_names df)"
    using True by simp
  then obtain col where col: "map_of (df_columns df) e = Some col"
    using map_of_column_names [of df e] by auto
  show ?thesis
  proof (cases col)
    case (NumCol xs)
    then show ?thesis
      using True col d by (simp add: drop_and_filter_def filter_auc_numeric)
  next
    case (ObjCol xs)
    let ?Q = "\<lambda>p. case xs ! p of None \<Rightarrow> False | Some s \<Rightarrow> str_contains ''AUC'' s"
    have e: "map_of (df_columns df) e = Some (ObjCol xs)"
      using col ObjCol by simp
    have "filter ?Q ?ps = surviving_positions df scols e m"
      unfolding surviving_positions_def filter_filter
      by (rule filter_cong) (auto simp: row_qualifies_text [OF assms e])
    then have "drop_and_filter df scols e m = Inr (take_rows (surviving_positions df scols e m) df)"
      by (simp add: drop_and_filter_def d filter_auc_text [OF e])
    then show ?thesis
      using True e by simp
  qed
qed

subsection \<open>Step 3 and the returned value\<close>

lemma astype_float_Inr:
  assumes "astype_float to_float ss = Inr vs"
  shows "length vs = length ss \<and> (\<forall>k < length ss. to_float (ss ! k) = Some (vs ! k))"
  using assms
proof (induction ss arbitrary: vs)
  case Nil
  then show ?case by simp
next
  case (Cons s ss)
  then obtain v vs' where v: "to_float s = Some v" "astype_float to_float ss = Inr vs'" "vs = v # vs'"
    by (auto split: option.splits sum.splits)
  with Cons.IH [OF v(2)] show ?case
    by (auto simp: nth_Cons split: nat.splits)
qed

lemma astype_float_frame_Inr:
  assumes "astype_float_frame to_float css = Inr vss"
  shows "length vss = length css \<and> (\<forall>i < length css. astype_float to_float (css ! i) = Inr (vss ! i))"
  using assms
proof (induction css arbitrary: vss)
  case Nil
  then show ?case by simp
next
  case (Cons c css)
  then obtain vs vss' where v: "astype_float to_float c = Inr vs"
      "astype_float_frame to_float css = Inr vss'" "vss = vs # vss'"
    by (auto split: sum.splits)
  with Cons.IH [OF v(2)] show ?case
    by (auto simp: nth_Cons split: nat.splits)
qed


lemma getitems_present:
  assumes "set names \<subseteq> set (column_names df)"
  shows "getitems df names
         = Inr \<lparr>df_index = df_index df,
                df_columns = map (\<lambda>n. (n, the (map_of (df_columns df) n))) names\<rparr>"
proof -
  have "filter (\<lambda>c. c \<notin> set (column_names df)) names = []"
    using assms by (auto simp: filter_empty_conv)
  then show ?thesis by (simp add: getitems_def)
qed

lemma getitem_present:
  assumes "map_of (df_columns df) c = Some col"
  shows "getitem df c = Inr col"
  by (simp add: getitem_def assms)

lemma map_of_set_column:
  "map_of (set_column n v cols) x = (if x = n then Some v else map_of cols x)"
  by (induction cols) auto

lemma assign_columns_None:
  "assign_columns names pairs cols = (None, cs) \<Longrightarrow>
     cs = fold (\<lambda>nc acc. set_column (fst nc) (snd nc) acc) pairs cols"
  by (induction pairs arbitrary: cols) (auto split: if_splits)



lemma map_of_fold_set_column:
  "map_of (fold (\<lambda>nc acc. set_column (fst nc) (snd nc) acc) (map (\<lambda>c. (c, F c)) names) cols) x
   = (if x \<in> set names then Some (F x) else map_of cols x)"
  by (induction names arbitrary: cols) (auto simp: map_of_set_column)

lemma col_length_take: "col_length (col_take ps col) = length ps"
  by (cases col) simp_all

lemma astype_str_length: "length (astype_str to_str col) = col_length col"
  by (cases col) simp_all

lemma astype_str_take:
  assumes "\<forall>p \<in> set ps. p < col_length col"
  shows "astype_str to_str (col_take ps col) = map ((!) (astype_str to_str col)) ps"
  using assms by (cases col) auto

lemma surviving_positions_bound: "p \<in> set (surviving_positions df scols e m) \<Longrightarrow> p < nrows df"
  by (simp add: surviving_positions_def)

lemma wf_col_length:
  assumes "wf_dataframe df" "map_of (df_columns df) c = Some col"
  shows "col_length col = nrows df"
proof -
  have "(c, col) \<in> set (df_columns df)"
    using assms(2) by (rule map_of_SomeD)
  then show ?thesis
    using assms(1) by (auto simp: wf_dataframe_def list_all_iff)
qed

text \<open>The frame after the assignment of the converted score columns.\<close>

lemma convert_scores_result:
  fixes d2 :: "'f dataframe"
  assumes names: "set scols \<subseteq> set (column_names d2)"
    and conv: "convert_scores to_str to_float d2 scols = Inr d3"
  shows "df_index d3 = df_index d2"
    and "x \<notin> set scols \<Longrightarrow> map_of (df_columns d3) x = map_of (df_columns d2) x"
    and "x \<in> set scols \<Longrightarrow>
           \<exists>col vs. map_of (df_columns d2) x = Some col
             \<and> astype_float to_float (map str_replace_comma (astype_str to_str col)) = Inr vs
             \<and> map_of (df_columns d3) x = Some (NumCol (map Some vs))"
proof -
  let ?H = "\<lambda>n. map str_replace_comma (astype_str to_str (the (map_of (df_columns d2) n)))"
  let ?F = "\<lambda>n. NumCol (map Some (projr (astype_float to_float (?H n)))) :: 'f column"
  have g: "getitems d2 scols
           = Inr \<lparr>df_index = df_index d2,
                  df_columns = map (\<lambda>n. (n, the (map_of (df_columns d2) n))) scols\<rparr>"
    using names by (rule getitems_present)
  obtain vss where vss: "astype_float_frame to_float (map ?H scols) = Inr vss"
    and set3: "setitems d2 scols (map (\<lambda>vs. NumCol (map Some vs)) vss) = (None, d3)"
    using conv
    by (auto simp: convert_scores_def converted_scores_def g comp_def
        split: sum.splits option.splits prod.splits)
  have d3: "d3 = d2\<lparr>df_columns :=
                 fold (\<lambda>nc acc. set_column (fst nc) (snd nc) acc)
                   (zip scols (map (\<lambda>vs. NumCol (map Some vs)) vss)) (df_columns d2)\<rparr>"
    using set3 by (auto simp: setitems_def split: prod.splits dest: assign_columns_None)
  from astype_float_frame_Inr [OF vss]
  have len: "length vss = length scols"
    and each: "\<And>i. i < length scols \<Longrightarrow> astype_float to_float (?H (scols ! i)) = Inr (vss ! i)"
    by simp_all
  have z: "zip scols (map (\<lambda>vs. NumCol (map Some vs)) vss) = map (\<lambda>c. (c, ?F c)) scols"
    using len by (intro nth_equalityI) (simp_all add: each)
  have cols3: "map_of (df_columns d3) y = (if y \<in> set scols then Some (?F y) else map_of (df_columns d2) y)"
    for y
    unfolding d3 z by (simp add: map_of_fold_set_column)
  show "df_index d3 = df_index d2"
    by (simp add: d3)
  show "map_of (df_columns d3) x = map_of (df_columns d2) x" if "x \<notin> set scols"
    using that by (simp add: cols3)
  show "\<exists>col vs. map_of (df_columns d2) x = Some col
             \<and> astype_float to_float (map str_replace_comma (astype_str to_str col)) = Inr vs
             \<and> map_of (df_columns d3) x = Some (NumCol (map Some vs))" if x: "x \<in> set scols"
  proof -
    obtain i where i: "i < length scols" "scols ! i = x"
      using x by (auto simp: in_set_conv_nth)
    have "x \<in> set (column_names d2)"
      using x names by blast
    then obtain col where col: "map_of (df_columns d2) x = Some col"
      using map_of_column_names [of d2 x] by auto
    have "astype_float to_float (?H x) = Inr (vss ! i)"
      using each [OF i(1)] i(2) by simp
    then show ?thesis
      using col x by (simp add: cols3)
  qed
qed

text \<open>The shape of a successful result, row by row.\<close>

lemma preprocess_success_rows:
  fixes df :: "'f dataframe"
  assumes wf: "wf_dataframe df"
    and ok: "preprocess_performance_data to_str to_float df scols e m = Inr (scores, mods)"
  defines "ps \<equiv> surviving_positions df scols e m"
  shows "df_index scores = map ((!) (df_index df)) ps"
    and "s_index mods = map ((!) (df_index df)) ps"
    and "column_names scores = scols"
    and "\<And>i. i < length scols \<Longrightarrow>
           \<exists>col vs. map_of (df_columns df) (scols ! i) = Some col
             \<and> df_columns scores ! i = (scols ! i, NumCol (map Some vs))
             \<and> length vs = length ps
             \<and> (\<forall>k < length ps.
                   convert_score_text to_float (astype_str to_str col ! (ps ! k)) = Inr (vs ! k))"
    and "m \<notin> set scols \<Longrightarrow>
           \<exists>col. map_of (df_columns df) m = Some col \<and> s_values mods = col_take ps col"
    and "col_length (s_values mods) = length ps"
proof -
  obtain d2 d3 where d2: "drop_and_filter df scols e m = Inr d2"
    and d3: "convert_scores to_str to_float d2 scols = Inr d3"
    and sel: "select_result d3 scols m = Inr (scores, mods)"
    using ok by (auto simp: preprocess_performance_data_def split: sum.splits)
  have names: "set (scols @ [e, m]) \<subseteq> set (column_names df)"
    using drop_and_filter_cases [OF wf, of scols e m] d2 by (auto split: if_splits)
  have d2_eq: "d2 = take_rows ps df"
    using drop_and_filter_cases [OF wf, of scols e m] d2 names
    by (auto simp: ps_def split: option.splits column.splits)
  have names2: "set scols \<subseteq> set (column_names d2)"
    using names by (simp add: d2_eq column_names_take_rows)
  note r = convert_scores_result [OF names2 d3]
  have conv: "\<exists>col vs. map_of (df_columns df) x = Some col
                \<and> map_of (df_columns d3) x = Some (NumCol (map Some vs))
                \<and> length vs = length ps
                \<and> (\<forall>k < length ps.
                      convert_score_text to_float (astype_str to_str col ! (ps ! k)) = Inr (vs ! k))"
    if x: "x \<in> set scols" for x
  proof -
    obtain col2 vs where c2: "map_of (df_columns d2) x = Some col2"
      and vs: "astype_float to_float (map str_replace_comma (astype_str to_str col2)) = Inr vs"
      and c3: "map_of (df_columns d3) x = Some (NumCol (map Some vs))"
      using r(3) [OF x] by blast
    obtain col where col: "map_of (df_columns df) x = Some col" and col2: "col2 = col_take ps col"
      using c2 by (auto simp: d2_eq map_of_take_rows)
    have "\<forall>p \<in> set ps. p < col_length col"
      using wf_col_length [OF wf col] surviving_positions_bound by (auto simp: ps_def)
    then have str: "astype_str to_str col2 = map ((!) (astype_str to_str col)) ps"
      unfolding col2 by (rule astype_str_take)
    from astype_float_Inr [OF vs]
    have len: "length vs = length ps"
      and each: "\<And>k. k < length ps \<Longrightarrow>
                   to_float (str_replace_comma (astype_str to_str col ! (ps ! k))) = Some (vs ! k)"
      by (simp_all add: str)
    have "convert_score_text to_float (astype_str to_str col ! (ps ! k)) = Inr (vs ! k)"
      if "k < length ps" for k
      using each [OF that] by (simp add: convert_score_text_def)
    with col c3 len show ?thesis by blast
  qed
  have present3: "set scols \<subseteq> set (column_names d3)"
  proof
    fix x assume "x \<in> set scols"
    then have "map_of (df_columns d3) x \<noteq> None"
      using conv by fastforce
    then show "x \<in> set (column_names d3)"
      by (simp add: map_of_column_names)
  qed
  have g3: "getitems d3 scols
            = Inr \<lparr>df_index = df_index d3,
                   df_columns = map (\<lambda>n. (n, the (map_of (df_columns d3) n))) scols\<rparr>"
    using present3 by (rule getitems_present)
  obtain mcol where mcol: "map_of (df_columns d3) m = Some mcol"
    and scores: "scores = \<lparr>df_index = df_index d3,
                   df_columns = map (\<lambda>n. (n, the (map_of (df_columns d3) n))) scols\<rparr>"
    and mods: "mods = \<lparr>s_index = df_index d3, s_values = mcol\<rparr>"
    using sel by (auto simp: select_result_def g3 getitem_def split: option.splits)
  have idx: "df_index d3 = map ((!) (df_index df)) ps"
    using r(1) by (simp add: d2_eq df_index_take_rows)
  show "df_index scores = map ((!) (df_index df)) ps"
    by (simp add: scores idx)
  show "s_index mods = map ((!) (df_index df)) ps"
    by (simp add: mods idx)
  show "column_names scores = scols"
    by (simp add: scores column_names_def comp_def)
  show "\<exists>col vs. map_of (df_columns df) (scols ! i) = Some col
             \<and> df_columns scores ! i = (scols ! i, NumCol (map Some vs))
             \<and> length vs = length ps
             \<and> (\<forall>k < length ps.
                   convert_score_text to_float (astype_str to_str col ! (ps ! k)) = Inr (vs ! k))"
    if i: "i < length scols" for i
  proof -
    have "scols ! i \<in> set scols" using i by simp
    from conv [OF this] show ?thesis
      using i by (auto simp: scores)
  qed
  have m_raw: "\<exists>col. map_of (df_columns df) m = Some col \<and> s_values mods = col_take ps col"
    if "m \<notin> set scols"
  proof -
    have "map_of (df_columns d2) m = Some mcol"
      using r(2) [OF that] mcol by simp
    then show ?thesis
      by (auto simp: d2_eq map_of_take_rows mods)
  qed
  then show "m \<notin> set scols \<Longrightarrow>
           \<exists>col. map_of (df_columns df) m = Some col \<and> s_values mods = col_take ps col" .
  show "col_length (s_values mods) = length ps"
  proof (cases "m \<in> set scols")
    case True
    from conv [OF this] mcol show ?thesis
      by (auto simp: mods)
  next
    case False
    from m_raw [OF this] show ?thesis
      by (auto simp: col_length_take)
  qed
qed

lemma wf_metrics_frame: "wf_dataframe metrics_frame"
  by (simp add: wf_dataframe_def metrics_frame_def nrows_def)

lemma surviving_metrics_frame:
  "surviving_positions metrics_frame [''unimodal_best_score'', ''multimodal_best_score'']
     ''evaluation_metric'' ''modalities'' = [0, 2]"
  by (simp add: surviving_positions_def row_qualifies_def cell_notna_def cell_text_def
      metrics_frame_def nrows_def)

lemma preprocess_metrics_frame:
  "preprocess_performance_data plain_str decimal_value metrics_frame
     [''unimodal_best_score'', ''multimodal_best_score''] ''evaluation_metric'' ''modalities''
   = Inr (\<lparr>df_index = [0, 2],
           df_columns = [(''unimodal_best_score'', NumCol [Some (80 / 100), Some (75 / 100)]),
                         (''multimodal_best_score'', NumCol [Some (87 / 100), Some (90 / 100)])]\<rparr>,
          \<lparr>s_index = [0, 2], s_values = ObjCol [Some ''MRI+PET'', Some ''MRI+PET'']\<rparr>)"
  by (simp add: preprocess_performance_data_def drop_and_filter_def dropna_def filter_auc_def
      getitem_def getitems_def column_names_def notna_all_def nrows_def boolean_index_def
      mask_select_def str_contains_col_def convert_scores_def converted_scores_def setitems_def
      select_result_def
      str_replace_comma_def decimal_value_def is_digits_def digit_val_def metrics_frame_def)

lemma preprocess_index:
  assumes "wf_dataframe df"
  shows "case preprocess_performance_data to_str to_float df scols e m of
           Inr (scores, mods) \<Rightarrow>
             df_index scores = map ((!) (df_index df)) (surviving_positions df scols e m)
             \<and> s_index mods = map ((!) (df_index df)) (surviving_positions df scols e m)
         | Inl err \<Rightarrow> True"
  using preprocess_success_rows(1,2) [OF assms]
  by (auto split: sum.splits)

text \<open>
  C2. The performance preprocessor retains exactly the rows whose evaluation metric
  contains \<open>AUC\<close>: a row survives steps 1 and 2 if and only if it has a value in each of
  the designated columns and its evaluation metric is a text containing \<open>AUC\<close>. When
  the two steps return a frame, it consists of exactly these rows of the input, in their
  order; when they raise, no row of the input qualifies. The rows the whole function
  returns carry the labels of exactly these rows.
\<close>

theorem auc_filter_rows:
  assumes "wf_dataframe df"
  shows "(case drop_and_filter df scols e m of
            Inr d \<Rightarrow> d = take_rows (surviving_positions df scols e m) df
          | Inl err \<Rightarrow> surviving_positions df scols e m = [])
       \<and> (case preprocess_performance_data to_str to_float df scols e m of
            Inr (scores, mods) \<Rightarrow>
              df_index scores = map ((!) (df_index df)) (surviving_positions df scols e m)
              \<and> s_index mods = map ((!) (df_index df)) (surviving_positions df scols e m)
          | Inl err \<Rightarrow> True)"
proof -
  have none: "surviving_positions df scols e m = []"
    if "\<And>p. \<not> row_qualifies df scols e m p"
    using that by (simp add: surviving_positions_def)
  have "case drop_and_filter df scols e m of
            Inr d \<Rightarrow> d = take_rows (surviving_positions df scols e m) df
          | Inl err \<Rightarrow> surviving_positions df scols e m = []"
  proof (cases "set (scols @ [e, m]) \<subseteq> set (column_names df)")
    case False
    have "surviving_positions df scols e m = []"
      by (rule none) (rule no_row_qualifies_absent [OF False])
    then show ?thesis
      using drop_and_filter_cases [OF assms, of scols e m] False by simp
  next
    case True
    then have "e \<in> set (column_names df)" by simp
    then obtain col where col: "map_of (df_columns df) e = Some col"
      using map_of_column_names [of df e] by auto
    show ?thesis
    proof (cases col)
      case (NumCol xs)
      then have num: "map_of (df_columns df) e = Some (NumCol xs)"
        using col by simp
      have "surviving_positions df scols e m = []"
        by (rule none) (rule no_row_qualifies_numeric [OF num])
      then show ?thesis
        using drop_and_filter_cases [OF assms, of scols e m] True num by simp
    next
      case (ObjCol xs)
      then show ?thesis
        using drop_and_filter_cases [OF assms, of scols e m] True col by simp
    qed
  qed
  with preprocess_index [OF assms] show ?thesis
    by blast
qed

theorem auc_filter_rows_witness:
  "wf_dataframe metrics_frame
   \<and> surviving_positions metrics_frame [''unimodal_best_score'', ''multimodal_best_score'']
        ''evaluation_metric'' ''modalities'' = [0, 2]
   \<and> drop_and_filter metrics_frame [''unimodal_best_score'', ''multimodal_best_score'']
        ''evaluation_metric'' ''modalities'' = Inr (take_rows [0, 2] metrics_frame)
   \<and> cell_text metrics_frame ''evaluation_metric'' 0 = Some ''AUC-ROC''
   \<and> cell_text metrics_frame ''evaluation_metric'' 1 = Some ''Accuracy''
   \<and> cell_text metrics_frame ''evaluation_metric'' 2 = Some ''AUC''"
proof -
  have ok: "\<exists>d. drop_and_filter metrics_frame [''unimodal_best_score'', ''multimodal_best_score'']
        ''evaluation_metric'' ''modalities'' = Inr d"
    by (simp add: drop_and_filter_def dropna_def filter_auc_def getitem_def column_names_def
        boolean_index_def str_contains_col_def metrics_frame_def)
  have cells: "cell_text metrics_frame ''evaluation_metric'' 0 = Some ''AUC-ROC''"
    "cell_text metrics_frame ''evaluation_metric'' 1 = Some ''Accuracy''"
    "cell_text metrics_frame ''evaluation_metric'' 2 = Some ''AUC''"
    by (simp_all add: cell_text_def metrics_frame_def)
  from auc_filter_rows [OF wf_metrics_frame, of "[''unimodal_best_score'', ''multimodal_best_score'']"
      "''evaluation_metric''" "''modalities''" plain_str decimal_value] ok
  have "drop_and_filter metrics_frame [''unimodal_best_score'', ''multimodal_best_score'']
        ''evaluation_metric'' ''modalities'' = Inr (take_rows [0, 2] metrics_frame)"
    by (auto simp: surviving_metrics_frame)
  with wf_metrics_frame surviving_metrics_frame cells show ?thesis
    by simp
qed

text \<open>
  C3. Row alignment: when the preprocessing succeeds, the returned score columns and
  the returned modality series have the same index and the same length, and each of
  their positions comes from the same surviving input row: position k holds the label
  of the k-th surviving row, the converted score texts of that row and (the modality
  column not being a score column) the modality cell of that row.
\<close>

theorem row_alignment:
  assumes "wf_dataframe df"
    and "preprocess_performance_data to_str to_float df scols e m = Inr (scores, mods)"
  shows "let ps = surviving_positions df scols e m in
           df_index scores = map ((!) (df_index df)) ps
         \<and> s_index mods = df_index scores
         \<and> column_names scores = scols
         \<and> list_all (\<lambda>nc. col_length (snd nc) = length (s_index mods)) (df_columns scores)
         \<and> col_length (s_values mods) = length (s_index mods)
         \<and> (\<forall>i < length scols.
               \<exists>col vs. map_of (df_columns df) (scols ! i) = Some col
                 \<and> df_columns scores ! i = (scols ! i, NumCol (map Some vs))
                 \<and> length vs = length ps
                 \<and> (\<forall>k < length ps.
                       convert_score_text to_float (astype_str to_str col ! (ps ! k))
                         = Inr (vs ! k)))
         \<and> (m \<notin> set scols \<longrightarrow>
               (\<exists>col. map_of (df_columns df) m = Some col \<and> s_values mods = col_take ps col))"
proof -
  define ps where "ps = surviving_positions df scols e m"
  note r = preprocess_success_rows [OF assms, folded ps_def]
  have len: "length (df_columns scores) = length scols"
    using r(3) by (metis column_names_def length_map)
  have "col_length (snd nc) = length ps" if nc: "nc \<in> set (df_columns scores)" for nc
  proof -
    obtain i where i: "i < length scols" "df_columns scores ! i = nc"
      using nc len by (auto simp: in_set_conv_nth)
    from r(4) [OF i(1)] i(2) show ?thesis
      by auto
  qed
  then have cols: "list_all (\<lambda>nc. col_length (snd nc) = length ps) (df_columns scores)"
    by (simp add: list_all_iff)
  have "length (s_index mods) = length ps"
    by (simp add: r(2))
  with r cols show ?thesis
    unfolding Let_def ps_def [symmetric] by simp
qed

theorem row_alignment_witness:
  "wf_dataframe metrics_frame
   \<and> preprocess_performance_data plain_str decimal_value metrics_frame
       [''unimodal_best_score'', ''multimodal_best_score''] ''evaluation_metric'' ''modalities''
     = Inr (\<lparr>df_index = [0, 2],
             df_columns = [(''unimodal_best_score'', NumCol [Some (80 / 100), Some (75 / 100)]),
                           (''multimodal_best_score'', NumCol [Some (87 / 100), Some (90 / 100)])]\<rparr>,
            \<lparr>s_index = [0, 2], s_values = ObjCol [Some ''MRI+PET'', Some ''MRI+PET'']\<rparr>)
   \<and> surviving_positions metrics_frame [''unimodal_best_score'', ''multimodal_best_score'']
        ''evaluation_metric'' ''modalities'' = [0, 2]
   \<and> map ((!) (df_index metrics_frame)) [0, 2] = [0, 2]"
  using row_alignment [OF wf_metrics_frame preprocess_metrics_frame]
    wf_metrics_frame preprocess_metrics_frame surviving_metrics_frame
  by (simp add: Let_def)

subsection \<open>Empty results\<close>

text \<open>
  The frame with a blank evaluation metric has all four columns and no surviving row,
  and the preprocessor raises on it.
\<close>

lemma wf_blank_metric_frame: "wf_dataframe blank_metric_frame"
  by (simp add: wf_dataframe_def blank_metric_frame_def nrows_def)





text \<open>A score column named twice: the assignment raises, also on a frame without rows.\<close>

lemma repeated_score_column_raises:
  "preprocess_performance_data plain_str decimal_value accuracy_frame
     [''unimodal_best_score'', ''unimodal_best_score''] ''evaluation_metric'' ''modalities''
   = Inl (ValueError ''Columns must be same length as key'')"
  by (simp add: preprocess_performance_data_def drop_and_filter_def dropna_def filter_auc_def
      getitem_def getitems_def column_names_def notna_all_def nrows_def boolean_index_def
      mask_select_def str_contains_col_def convert_scores_def converted_scores_def setitems_def
      accuracy_frame_def)



subsection \<open>The caller's frame\<close>

text \<open>
  C10. The preprocessor does not mutate its input: in the store after the call, the
  frame the caller passed, and every other frame that existed before the call, is what
  it was; the call only adds frames, and its one in-place assignment writes to a frame
  it allocated itself. The value returned is that of the function on the input frame.
\<close>

theorem input_frame_unchanged:
  assumes "df < length st"
  shows "case preprocess_performance_data_store to_str to_float st df scols e m of
           (res, st') \<Rightarrow>
             res = preprocess_performance_data to_str to_float (st ! df) scols e m
             \<and> length st \<le> length st'
             \<and> take (length st) st' = st
             \<and> st' ! df = st ! df"
  using assms
  by (auto simp: preprocess_performance_data_store_def preprocess_performance_data_def
      drop_and_filter_def convert_scores_def alloc_def Let_def nth_append nth_list_update
      split: sum.splits option.splits prod.splits)

theorem input_frame_unchanged_witness:
  "0 < length [metrics_frame]
   \<and> snd (preprocess_performance_data_store plain_str decimal_value [metrics_frame] 0
            [''unimodal_best_score'', ''multimodal_best_score''] ''evaluation_metric'' ''modalities'') ! 0
     = metrics_frame
   \<and> fst (preprocess_performance_data_store plain_str decimal_value [metrics_frame] 0
            [''unimodal_best_score'', ''multimodal_best_score''] ''evaluation_metric'' ''modalities'')
     = preprocess_performance_data plain_str decimal_value metrics_frame
            [''unimodal_best_score'', ''multimodal_best_score''] ''evaluation_metric'' ''modalities''"
  using input_frame_unchanged [of 0 "[metrics_frame]" plain_str decimal_value
      "[''unimodal_best_score'', ''multimodal_best_score'']" "''evaluation_metric''" "''modalities''"]
  by (simp add: split_beta)

end
